theory Spec2Isabelle
  imports Main "HOL-Library.Sublist" "HOL-Library.Word"
begin

unbundle bit_operations_syntax

section \<open>Errors and Go values\<close>

text \<open>
  A Go \<open>error\<close> is modelled by the message it carries. \<open>fmt.Errorf\<close> builds an
  \<open>Errorf\<close>; errors raised inside the standard library or the database driver have
  constructors of their own.
\<close>

datatype error =
    Errorf string
  | InvalidByteError char
  | ErrLength
  | ErrTxCommitRollback
  | PgError string
  | Wrapped string error
  | Joined string string "error list"

section \<open>Per-chain table names (indexer/db.go)\<close>

text \<open>
  \<open>fmt.Sprintf\<close> called with a format and no operands copies a format without
  \<open>%\<close> verbatim. What it prints for a format that holds a \<open>%\<close> (the verb
  diagnostics of package \<open>fmt\<close>) is the parameter \<open>verbs\<close>.
\<close>

definition Sprintf :: "(string \<Rightarrow> string) \<Rightarrow> string \<Rightarrow> string" where
  "Sprintf verbs format = (if CHR ''%'' \<in> set format then verbs format else format)"

definition LabelsTableName :: "(string \<Rightarrow> string) \<Rightarrow> string \<Rightarrow> string" where
  "LabelsTableName verbs blockchain = Sprintf verbs (blockchain @ ''_labels'')"

definition BlocksTableName :: "string \<Rightarrow> error + string" where
  "BlocksTableName blockchain =
    (if blockchain = ''arbitrum_one'' then Inr ''arbitrum_one_blocks''
     else if blockchain = ''arbitrum_sepolia'' then Inr ''arbitrum_sepolia_blocks''
     else if blockchain = ''b3'' then Inr ''b3_blocks''
     else if blockchain = ''b3_sepolia'' then Inr ''b3_sepolia_blocks''
     else if blockchain = ''ethereum'' then Inr ''ethereum_blocks''
     else if blockchain = ''game7'' then Inr ''game7_blocks''
     else if blockchain = ''game7_orbit_arbitrum_sepolia''
       then Inr ''game7_orbit_arbitrum_sepolia_blocks''
     else if blockchain = ''game7_testnet'' then Inr ''game7_testnet_blocks''
     else if blockchain = ''imx_zkevm'' then Inr ''imx_zkevm_blocks''
     else if blockchain = ''imx_zkevm_sepolia'' then Inr ''imx_zkevm_sepolia_blocks''
     else if blockchain = ''mantle'' then Inr ''mantle_blocks''
     else if blockchain = ''mantle_sepolia'' then Inr ''mantle_sepolia_blocks''
     else if blockchain = ''polygon'' then Inr ''polygon_blocks''
     else if blockchain = ''ronin'' then Inr ''ronin_blocks''
     else if blockchain = ''ronin_saigon'' then Inr ''ronin_saigon_blocks''
     else if blockchain = ''sepolia'' then Inr ''sepolia_blocks''
     else if blockchain = ''xai'' then Inr ''xai_blocks''
     else if blockchain = ''xai_sepolia'' then Inr ''xai_sepolia_blocks''
     else Inl (Errorf ''Unsupported blockchain''))"

definition TransactionsTableName :: "string \<Rightarrow> error + string" where
  "TransactionsTableName blockchain =
    (if blockchain = ''arbitrum_one'' then Inr ''arbitrum_one_transactions''
     else if blockchain = ''arbitrum_sepolia'' then Inr ''arbitrum_sepolia_transactions''
     else if blockchain = ''b3'' then Inr ''b3_transactions''
     else if blockchain = ''b3_sepolia'' then Inr ''b3_sepolia_transactions''
     else if blockchain = ''ethereum'' then Inr ''ethereum_transactions''
     else if blockchain = ''game7'' then Inr ''game7_transactions''
     else if blockchain = ''game7_orbit_arbitrum_sepolia''
       then Inr ''game7_orbit_arbitrum_sepolia_transactions''
     else if blockchain = ''game7_testnet'' then Inr ''game7_testnet_transactions''
     else if blockchain = ''imx_zkevm'' then Inr ''imx_zkevm_transactions''
     else if blockchain = ''imx_zkevm_sepolia'' then Inr ''imx_zkevm_sepolia_transactions''
     else if blockchain = ''mantle'' then Inr ''mantle_transactions''
     else if blockchain = ''mantle_sepolia'' then Inr ''mantle_sepolia_transactions''
     else if blockchain = ''polygon'' then Inr ''polygon_transactions''
     else if blockchain = ''ronin'' then Inr ''ronin_transactions''
     else if blockchain = ''ronin_saigon'' then Inr ''ronin_saigon_transactions''
     else if blockchain = ''sepolia'' then Inr ''sepolia_transactions''
     else if blockchain = ''xai'' then Inr ''xai_transactions''
     else if blockchain = ''xai_sepolia'' then Inr ''xai_sepolia_transactions''
     else Inl (Errorf ''Unsupported blockchain''))"

definition CustomerDBTransactionsTableName :: "(string \<Rightarrow> string) \<Rightarrow> string \<Rightarrow> string" where
  "CustomerDBTransactionsTableName verbs blockchain =
     Sprintf verbs (blockchain @ ''_transactions'')"

definition IsBlockchainWithL1Chain :: "string \<Rightarrow> bool" where
  "IsBlockchainWithL1Chain blockchain =
    (if blockchain = ''ethereum'' then False
     else if blockchain = ''polygon'' then False
     else if blockchain = ''arbitrum_one'' then True
     else if blockchain = ''arbitrum_sepolia'' then True
     else if blockchain = ''game7_orbit_arbitrum_sepolia'' then True
     else if blockchain = ''game7_testnet'' then True
     else if blockchain = ''game7'' then True
     else if blockchain = ''xai'' then True
     else if blockchain = ''xai_sepolia'' then True
     else if blockchain = ''mantle'' then False
     else if blockchain = ''mantle_sepolia'' then False
     else if blockchain = ''b3'' then False
     else if blockchain = ''b3_sepolia'' then False
     else if blockchain = ''ronin'' then False
     else if blockchain = ''ronin_saigon'' then False
     else False)"

text \<open>The known-chain whitelist of the specification (section 6).\<close>

definition known_chains :: "string list" where
  "known_chains =
    [''arbitrum_one'', ''arbitrum_sepolia'', ''b3'', ''b3_sepolia'', ''ethereum'', ''game7'',
     ''game7_orbit_arbitrum_sepolia'', ''game7_testnet'', ''imx_zkevm'', ''imx_zkevm_sepolia'',
     ''mantle'', ''mantle_sepolia'', ''polygon'', ''ronin'', ''ronin_saigon'', ''sepolia'',
     ''xai'', ''xai_sepolia'']"

text \<open>The L1-anchored subset as the specification words it: the whitelist members named
  \<open>arbitrum_*\<close>, \<open>game7*\<close> or \<open>xai*\<close>.\<close>

definition l1_anchored_spec :: "string \<Rightarrow> bool" where
  "l1_anchored_spec c \<longleftrightarrow>
     c \<in> set known_chains \<and>
     (prefix ''arbitrum_'' c \<or> prefix ''game7'' c \<or> prefix ''xai'' c)"

section \<open>Hex and big-integer parsing (standard library, as used by indexer/db.go)\<close>

type_synonym byte = "8 word"

text \<open>\<open>encoding/hex\<close>: the reverse table gives the value of a hex digit and \<open>0xff\<close>
  for every other byte.\<close>

definition reverseHexTable :: "char \<Rightarrow> byte" where
  "reverseHexTable c =
    (let n = (of_char c :: nat) in
     if 48 \<le> n \<and> n \<le> 57 then of_nat (n - 48)
     else if 97 \<le> n \<and> n \<le> 102 then of_nat (n - 87)
     else if 65 \<le> n \<and> n \<le> 70 then of_nat (n - 55)
     else 0xff)"

text \<open>\<open>hex.Decode\<close> walks the source two bytes at a time; \<open>dst\<close> is the output
  written so far. On an error the bytes decoded before it are still returned.\<close>

fun hex_Decode :: "byte list \<Rightarrow> string \<Rightarrow> byte list \<times> error option" where
  "hex_Decode dst [] = (dst, None)"
| "hex_Decode dst [p] =
     (if reverseHexTable p > 0x0f then (dst, Some (InvalidByteError p))
      else (dst, Some ErrLength))"
| "hex_Decode dst (p # q # src) =
     (let a = reverseHexTable p; b = reverseHexTable q in
      if a > 0x0f then (dst, Some (InvalidByteError p))
      else if b > 0x0f then (dst, Some (InvalidByteError q))
      else hex_Decode (dst @ [push_bit 4 a OR b]) src)"

definition hex_DecodeString :: "string \<Rightarrow> byte list \<times> error option" where
  "hex_DecodeString s = hex_Decode [] s"

definition decodeAddress :: "string \<Rightarrow> byte list \<times> error option" where
  "decodeAddress address =
     (if length address < 2 then ([0x00], None) else hex_DecodeString (drop 2 address))"

definition TrimPrefix :: "string \<Rightarrow> string \<Rightarrow> string" where
  "TrimPrefix s p = (if prefix p s then drop (length p) s else s)"

text \<open>\<open>math/big\<close>, \<open>(*Int).SetString(s, base)\<close> for an explicit base from 2 to 36:
  an optional sign, then digits of the base (letters in either case); the scan stops at
  the first byte that is no digit, at least one digit must have been read and the whole
  string must have been consumed. \<open>None\<close> is the result \<open>(nil, false)\<close>.\<close>

definition digitVal :: "char \<Rightarrow> nat" where
  "digitVal ch =
    (let n = (of_char ch :: nat) in
     if 48 \<le> n \<and> n \<le> 57 then n - 48
     else if 97 \<le> n \<and> n \<le> 122 then n - 97 + 10
     else if 65 \<le> n \<and> n \<le> 90 then n - 65 + 10
     else 63)"

fun scanSign :: "string \<Rightarrow> bool \<times> string" where
  "scanSign [] = (False, [])"
| "scanSign (ch # r) =
     (if ch = CHR ''-'' then (True, r)
      else if ch = CHR ''+'' then (False, r)
      else (False, ch # r))"

fun scanDigits :: "nat \<Rightarrow> nat \<Rightarrow> nat \<Rightarrow> string \<Rightarrow> nat \<times> nat \<times> string" where
  "scanDigits b z count [] = (z, count, [])"
| "scanDigits b z count (ch # r) =
     (if digitVal ch \<ge> b then (z, count, ch # r)
      else scanDigits b (z * b + digitVal ch) (Suc count) r)"

definition SetString :: "string \<Rightarrow> nat \<Rightarrow> int option" where
  "SetString s base =
    (case scanSign s of (neg, r) \<Rightarrow>
      (case scanDigits base 0 0 r of (z, count, rest) \<Rightarrow>
        if count = 0 then None
        else if rest \<noteq> [] then None
        else Some (if neg then - int z else int z)))"

text \<open>The result \<open>Inr None\<close> is the nil \<open>*big.Int\<close> returned with a nil error.\<close>

definition hexStringToBigInt :: "string \<Rightarrow> error + int option" where
  "hexStringToBigInt hexString =
    (if hexString = [] then Inr None
     else
       let hexString' = TrimPrefix hexString ''0x'' in
       case SetString hexString' 16 of
         None \<Rightarrow> Inl (Errorf (''failed to parse hex string: '' @ hexString'))
       | Some v \<Rightarrow> Inr (Some v))"

section \<open>Values handed to the bulk insert (indexer/db.go)\<close>

text \<open>
  A Go \<open>interface{}\<close> value: the untyped nil, or a value of a concrete type. A pointer
  carries the name of its element type and its target, \<open>None\<close> for the nil pointer;
  a slice of bytes may be nil as well.
\<close>

datatype go_value =
    NilInterface
  | GoString string
  | GoUint64 "64 word"
  | GoBytes "byte list option"
  | GoUUID string
  | GoBigInt int
  | GoPtr string "go_value option"

datatype kind = Invalid | String | Uint64 | Slice | Array | Struct | Ptr

fun Kind :: "go_value \<Rightarrow> kind" where
  "Kind NilInterface = Invalid"
| "Kind (GoString _) = String"
| "Kind (GoUint64 _) = Uint64"
| "Kind (GoBytes _) = Slice"
| "Kind (GoUUID _) = Array"
| "Kind (GoBigInt _) = Struct"
| "Kind (GoPtr _ _) = Ptr"

fun IsNil :: "go_value \<Rightarrow> bool" where
  "IsNil (GoPtr _ None) = True"
| "IsNil (GoBytes None) = True"
| "IsNil _ = False"

definition determineValue :: "go_value \<Rightarrow> go_value" where
  "determineValue val =
    (if val = NilInterface then NilInterface
     else if Kind val = Ptr \<and> IsNil val then NilInterface
     else val)"

record UnnestInsertValueStruct =
  Type :: string
  Values :: "go_value list"

type_synonym values_map = "string \<rightharpoonup> UnnestInsertValueStruct"

definition updateValues :: "values_map \<Rightarrow> string \<Rightarrow> go_value \<Rightarrow> values_map" where
  "updateValues valuesMap key val =
    (case valuesMap key of
       None \<Rightarrow> valuesMap
     | Some entry \<Rightarrow> valuesMap(key \<mapsto> entry\<lparr>Values := Values entry @ [determineValue val]\<rparr>))"

text \<open>A run of \<open>updateValues\<close> calls on the same map, in the order written.\<close>

definition updateAll :: "values_map \<Rightarrow> (string \<times> go_value) list \<Rightarrow> values_map" where
  "updateAll valuesMap kvs = foldl (\<lambda>m (k, v). updateValues m k v) valuesMap kvs"

text \<open>The pointer to a \<open>big.Int\<close> as an interface value.\<close>

definition bigIntPtr :: "int option \<Rightarrow> go_value" where
  "bigIntPtr p = GoPtr ''big.Int'' (map_option GoBigInt p)"

section \<open>The database side: pgx transactions\<close>

text \<open>
  A bulk insert as \<open>executeBatchInsert\<close> sends it: the statement text, and beside it
  the table, the columns and the one array argument per column that the text was built
  from.
\<close>

record insert_stmt =
  query :: string
  table :: string
  columns :: "string list"
  args :: "go_value list list"

text \<open>
  The database server and the connection pool. \<open>verdict\<close> is the server's answer to a
  statement: the error it raises (no such relation, an array of the wrong type), or
  \<open>None\<close> when it inserts the rows; \<open>committed\<close>
  holds the inserts whose rows are visible. A statement that fails inside a transaction
  aborts it; committing an aborted transaction rolls it back and pgx reports
  \<open>ErrTxCommitRollback\<close>.
\<close>

record database =
  acquire_err :: "error option"
  begin_err :: "error option"
  verdict :: "insert_stmt \<Rightarrow> error option"
  committed :: "insert_stmt list"

record pg_tx =
  pending :: "insert_stmt list"
  aborted :: bool

definition tx_Begin :: "pg_tx" where
  "tx_Begin = \<lparr>pending = [], aborted = False\<rparr>"

definition tx_Exec :: "database \<Rightarrow> pg_tx \<Rightarrow> insert_stmt \<Rightarrow> pg_tx \<times> error option" where
  "tx_Exec db tx stmt =
    (if aborted tx then (tx, Some (PgError ''current transaction is aborted''))
     else case verdict db stmt of
            Some err \<Rightarrow> (tx\<lparr>aborted := True\<rparr>, Some err)
          | None \<Rightarrow> (tx\<lparr>pending := pending tx @ [stmt]\<rparr>, None))"

definition tx_Commit :: "database \<Rightarrow> pg_tx \<Rightarrow> database \<times> error option" where
  "tx_Commit db tx =
    (if aborted tx then (db, Some ErrTxCommitRollback)
     else (db\<lparr>committed := committed db @ pending tx\<rparr>, None))"

definition tx_Rollback :: "database \<Rightarrow> pg_tx \<Rightarrow> database" where
  "tx_Rollback db tx = db"

section \<open>Bulk insert (indexer/db.go)\<close>

fun itoa :: "nat \<Rightarrow> string" where
  "itoa n = (if n < 10 then [char_of (48 + n)] else itoa (n div 10) @ [char_of (48 + n mod 10)])"

fun Join :: "string list \<Rightarrow> string \<Rightarrow> string" where
  "Join [] sep = []"
| "Join [x] sep = x"
| "Join (x # y # xs) sep = x @ sep @ Join (y # xs) sep"

text \<open>Reading a key that a Go map does not hold gives the zero value of the struct.\<close>

definition entry_of :: "values_map \<Rightarrow> string \<Rightarrow> UnnestInsertValueStruct" where
  "entry_of vals column =
     (case vals column of None \<Rightarrow> \<lparr>Type = [], Values = []\<rparr> | Some e \<Rightarrow> e)"

definition executeBatchInsert ::
  "database \<Rightarrow> pg_tx \<Rightarrow> string \<Rightarrow> string list \<Rightarrow> values_map \<Rightarrow> string \<Rightarrow> pg_tx \<times> error option"
where
  "executeBatchInsert db tx tableName cols vals conflictClause =
    (let types = map (\<lambda>(index, column).
                   ''$'' @ itoa (index + 1) @ ''::'' @ Type (entry_of vals column) @ ''[]'')
                 (enumerate 0 cols);
         q = ''INSERT INTO '' @ tableName @ '' ('' @ Join cols '','' @
             '') SELECT * FROM unnest('' @ Join types '','' @ '') '' @ conflictClause;
         valuesSlice = map (\<lambda>column. Values (entry_of vals column)) cols
     in case tx_Exec db tx \<lparr>query = q, table = tableName, columns = cols, args = valuesSlice\<rparr> of
          (tx', Some err) \<Rightarrow>
            (tx', Some (Wrapped ''error executing bulk insert for batch: '' err))
        | (tx', None) \<Rightarrow> (tx', None))"

section \<open>Label and transaction writers (indexer/db.go)\<close>

text \<open>The structs written to the customer database; their declarations are outside the
  files at hand, the fields are the ones the writers read.\<close>

record TransactionLabel =
  tl_Address :: string
  tl_BlockNumber :: "64 word"
  tl_BlockHash :: string
  tl_CallerAddress :: string
  tl_LabelName :: string
  tl_LabelType :: string
  tl_OriginAddress :: string
  tl_Label :: string
  tl_TransactionHash :: string
  tl_LabelData :: string
  tl_BlockTimestamp :: "64 word"

record EventLabel =
  el_Label :: string
  el_LabelName :: string
  el_LabelType :: string
  el_BlockNumber :: "64 word"
  el_BlockHash :: string
  el_Address :: string
  el_OriginAddress :: string
  el_CallerAddress :: string
  el_TransactionHash :: string
  el_LabelData :: string
  el_BlockTimestamp :: "64 word"
  el_LogIndex :: "64 word"

record RawTransaction =
  rt_Hash :: string
  rt_BlockHash :: string
  rt_BlockTimestamp :: "64 word"
  rt_BlockNumber :: "64 word"
  rt_FromAddress :: string
  rt_ToAddress :: string
  rt_Gas :: string
  rt_GasPrice :: string
  rt_Input :: string
  rt_Nonce :: string
  rt_MaxFeePerGas :: string
  rt_MaxPriorityFeePerGas :: string
  rt_TransactionIndex :: "64 word"
  rt_TransactionType :: "64 word"
  rt_Value :: string
  rt_L1BlockNumber :: "64 word option"

record BlockIndex =
  bi_BlockNumber :: "64 word"
  bi_BlockHash :: string
  bi_BlockTimestamp :: "64 word"
  bi_ParentHash :: string
  bi_RowID :: "64 word"
  bi_Path :: string
  bi_L1BlockNumber :: go_value

text \<open>A fresh entry of the values map: the declared type and no values yet.\<close>

definition unnest_column :: "string \<Rightarrow> UnnestInsertValueStruct" where
  "unnest_column ty = \<lparr>Type = ty, Values = []\<rparr>"

text \<open>\<open>uuid.New()\<close> is the parameter \<open>ids\<close>: \<open>ids k\<close> is the identifier that the
  \<open>k\<close>-th call returns.\<close>

fun WriteTransactions_rows ::
  "(nat \<Rightarrow> string) \<Rightarrow> nat \<Rightarrow> values_map \<Rightarrow> TransactionLabel list \<Rightarrow> values_map"
where
  "WriteTransactions_rows ids k valuesMap [] = valuesMap"
| "WriteTransactions_rows ids k valuesMap (transaction # rest) =
    (let id = ids k in
     case decodeAddress (tl_Address transaction) of
       (addressBytes, Some err) \<Rightarrow> WriteTransactions_rows ids (Suc k) valuesMap rest
     | (addressBytes, None) \<Rightarrow>
     (case decodeAddress (tl_CallerAddress transaction) of
       (callerAddressBytes, Some err) \<Rightarrow> WriteTransactions_rows ids (Suc k) valuesMap rest
     | (callerAddressBytes, None) \<Rightarrow>
     (case decodeAddress (tl_OriginAddress transaction) of
       (originAddressBytes, Some err) \<Rightarrow> WriteTransactions_rows ids (Suc k) valuesMap rest
     | (originAddressBytes, None) \<Rightarrow>
       WriteTransactions_rows ids (Suc k)
         (updateAll valuesMap
           [(''id'', GoUUID id),
            (''address'', GoBytes (Some addressBytes)),
            (''block_number'', GoUint64 (tl_BlockNumber transaction)),
            (''block_hash'', GoString (tl_BlockHash transaction)),
            (''caller_address'', GoBytes (Some callerAddressBytes)),
            (''label_name'', GoString (tl_LabelName transaction)),
            (''label_type'', GoString (tl_LabelType transaction)),
            (''origin_address'', GoBytes (Some originAddressBytes)),
            (''label'', GoString (tl_Label transaction)),
            (''transaction_hash'', GoString (tl_TransactionHash transaction)),
            (''label_data'', GoString (tl_LabelData transaction)),
            (''block_timestamp'', GoUint64 (tl_BlockTimestamp transaction))])
         rest)))"

definition WriteTransactions ::
  "database \<Rightarrow> (string \<Rightarrow> string) \<Rightarrow> (nat \<Rightarrow> string) \<Rightarrow> pg_tx \<Rightarrow> string \<Rightarrow>
   TransactionLabel list \<Rightarrow> pg_tx \<times> error option"
where
  "WriteTransactions db verbs ids tx blockchain transactions =
    (let tableName = LabelsTableName verbs blockchain;
         cols = [''id'', ''address'', ''block_number'', ''block_hash'', ''caller_address'',
                 ''label_name'', ''label_type'', ''origin_address'', ''label'',
                 ''transaction_hash'', ''label_data'', ''block_timestamp''];
         valuesMap = map_of
           [(''id'', unnest_column ''UUID''),
            (''address'', unnest_column ''BYTEA''),
            (''block_number'', unnest_column ''BIGINT''),
            (''block_hash'', unnest_column ''TEXT''),
            (''caller_address'', unnest_column ''BYTEA''),
            (''label_name'', unnest_column ''TEXT''),
            (''label_type'', unnest_column ''TEXT''),
            (''origin_address'', unnest_column ''BYTEA''),
            (''label'', unnest_column ''TEXT''),
            (''transaction_hash'', unnest_column ''TEXT''),
            (''label_data'', unnest_column ''jsonb''),
            (''block_timestamp'', unnest_column ''BIGINT'')];
         valuesMap' = WriteTransactions_rows ids 0 valuesMap transactions
     in executeBatchInsert db tx tableName cols valuesMap' ''ON CONFLICT DO NOTHING'')"

fun WriteEvents_rows ::
  "(nat \<Rightarrow> string) \<Rightarrow> nat \<Rightarrow> values_map \<Rightarrow> EventLabel list \<Rightarrow> values_map"
where
  "WriteEvents_rows ids k valuesMap [] = valuesMap"
| "WriteEvents_rows ids k valuesMap (event # rest) =
    (let id = ids k in
     case decodeAddress (el_CallerAddress event) of
       (callerAddressBytes, Some err) \<Rightarrow> WriteEvents_rows ids (Suc k) valuesMap rest
     | (callerAddressBytes, None) \<Rightarrow>
     (case decodeAddress (el_OriginAddress event) of
       (originAddressBytes, Some err) \<Rightarrow> WriteEvents_rows ids (Suc k) valuesMap rest
     | (originAddressBytes, None) \<Rightarrow>
     (case decodeAddress (el_Address event) of
       (addressBytes, Some err) \<Rightarrow> WriteEvents_rows ids (Suc k) valuesMap rest
     | (addressBytes, None) \<Rightarrow>
       WriteEvents_rows ids (Suc k)
         (updateAll valuesMap
           [(''id'', GoUUID id),
            (''label'', GoString (el_Label event)),
            (''transaction_hash'', GoString (el_TransactionHash event)),
            (''log_index'', GoUint64 (el_LogIndex event)),
            (''block_number'', GoUint64 (el_BlockNumber event)),
            (''block_hash'', GoString (el_BlockHash event)),
            (''block_timestamp'', GoUint64 (el_BlockTimestamp event)),
            (''caller_address'', GoBytes (Some callerAddressBytes)),
            (''origin_address'', GoBytes (Some originAddressBytes)),
            (''address'', GoBytes (Some addressBytes)),
            (''label_name'', GoString (el_LabelName event)),
            (''label_type'', GoString (el_LabelType event)),
            (''label_data'', GoString (el_LabelData event))])
         rest)))"

definition WriteEvents ::
  "database \<Rightarrow> (string \<Rightarrow> string) \<Rightarrow> (nat \<Rightarrow> string) \<Rightarrow> pg_tx \<Rightarrow> string \<Rightarrow>
   EventLabel list \<Rightarrow> pg_tx \<times> error option"
where
  "WriteEvents db verbs ids tx blockchain events =
    (let tableName = LabelsTableName verbs blockchain;
         cols = [''id'', ''label'', ''transaction_hash'', ''log_index'', ''block_number'',
                 ''block_hash'', ''block_timestamp'', ''caller_address'', ''origin_address'',
                 ''address'', ''label_name'', ''label_type'', ''label_data''];
         valuesMap = map_of
           [(''id'', unnest_column ''UUID''),
            (''label'', unnest_column ''TEXT''),
            (''transaction_hash'', unnest_column ''TEXT''),
            (''log_index'', unnest_column ''BIGINT''),
            (''block_number'', unnest_column ''BIGINT''),
            (''block_hash'', unnest_column ''TEXT''),
            (''block_timestamp'', unnest_column ''BIGINT''),
            (''caller_address'', unnest_column ''BYTEA''),
            (''origin_address'', unnest_column ''BYTEA''),
            (''address'', unnest_column ''BYTEA''),
            (''label_name'', unnest_column ''TEXT''),
            (''label_type'', unnest_column ''TEXT''),
            (''label_data'', unnest_column ''jsonb'')];
         valuesMap' = WriteEvents_rows ids 0 valuesMap events
     in executeBatchInsert db tx tableName cols valuesMap' ''ON CONFLICT DO NOTHING'')"

text \<open>The loop of \<open>WriteRawTransactions\<close> returns at the first address or number that
  does not parse, before anything is sent to the database.\<close>

fun WriteRawTransactions_rows ::
  "bool \<Rightarrow> values_map \<Rightarrow> RawTransaction list \<Rightarrow> error + values_map"
where
  "WriteRawTransactions_rows isBlockchainWithL1Chain valuesMap [] = Inr valuesMap"
| "WriteRawTransactions_rows isBlockchainWithL1Chain valuesMap (rawTransaction # rest) =
    (case decodeAddress (rt_FromAddress rawTransaction) of
       (fromAddress, Some err) \<Rightarrow> Inl err
     | (fromAddress, None) \<Rightarrow>
     (case decodeAddress (rt_ToAddress rawTransaction) of
       (toAddress, Some err) \<Rightarrow> Inl err
     | (toAddress, None) \<Rightarrow>
     (case hexStringToBigInt (rt_Gas rawTransaction) of
       Inl err \<Rightarrow> Inl err
     | Inr gas \<Rightarrow>
     (case hexStringToBigInt (rt_GasPrice rawTransaction) of
       Inl err \<Rightarrow> Inl err
     | Inr gasPrice \<Rightarrow>
     (case hexStringToBigInt (rt_MaxFeePerGas rawTransaction) of
       Inl err \<Rightarrow> Inl err
     | Inr maxFeePerGas \<Rightarrow>
     (case hexStringToBigInt (rt_MaxPriorityFeePerGas rawTransaction) of
       Inl err \<Rightarrow> Inl err
     | Inr maxPriorityFeePerGas \<Rightarrow>
     (case hexStringToBigInt (rt_Value rawTransaction) of
       Inl err \<Rightarrow> Inl err
     | Inr val \<Rightarrow>
       (let valuesMap1 = updateAll valuesMap
              [(''hash'', GoString (rt_Hash rawTransaction)),
               (''block_hash'', GoString (rt_BlockHash rawTransaction)),
               (''block_timestamp'', GoUint64 (rt_BlockTimestamp rawTransaction)),
               (''block_number'', GoUint64 (rt_BlockNumber rawTransaction)),
               (''from_address'', GoBytes (Some fromAddress)),
               (''to_address'', GoBytes (Some toAddress)),
               (''gas'', bigIntPtr gas),
               (''gas_price'', bigIntPtr gasPrice),
               (''input'', GoString (rt_Input rawTransaction)),
               (''nonce'', GoString (rt_Nonce rawTransaction)),
               (''max_fee_per_gas'', bigIntPtr maxFeePerGas),
               (''max_priority_fee_per_gas'', bigIntPtr maxPriorityFeePerGas),
               (''transaction_index'', GoUint64 (rt_TransactionIndex rawTransaction)),
               (''transaction_type'', GoUint64 (rt_TransactionType rawTransaction)),
               (''value'', bigIntPtr val)];
            valuesMap2 =
              (if isBlockchainWithL1Chain then
                 (let l1Bn = (case rt_L1BlockNumber rawTransaction of
                                Some n \<Rightarrow> GoUint64 n
                              | None \<Rightarrow> NilInterface)
                  in updateValues valuesMap1 ''l1_block_number'' l1Bn)
               else valuesMap1)
        in WriteRawTransactions_rows isBlockchainWithL1Chain valuesMap2 rest))))))))"

definition WriteRawTransactions_columns :: "string \<Rightarrow> string list" where
  "WriteRawTransactions_columns blockchain =
    (let cols = [''hash'', ''block_hash'', ''block_timestamp'', ''block_number'',
                 ''from_address'', ''to_address'', ''gas'', ''gas_price'', ''input'', ''nonce'',
                 ''max_fee_per_gas'', ''max_priority_fee_per_gas'', ''transaction_index'',
                 ''transaction_type'', ''value'']
     in if IsBlockchainWithL1Chain blockchain then cols @ [''l1_block_number''] else cols)"

definition WriteRawTransactions ::
  "database \<Rightarrow> (string \<Rightarrow> string) \<Rightarrow> pg_tx \<Rightarrow> string \<Rightarrow> RawTransaction list \<Rightarrow>
   pg_tx \<times> error option"
where
  "WriteRawTransactions db verbs tx blockchain rawTransactions =
    (let tableName = CustomerDBTransactionsTableName verbs blockchain;
         isBlockchainWithL1Chain = IsBlockchainWithL1Chain blockchain;
         cols = WriteRawTransactions_columns blockchain;
         valuesMap = map_of
           [(''hash'', unnest_column ''TEXT''),
            (''block_hash'', unnest_column ''TEXT''),
            (''block_timestamp'', unnest_column ''BIGINT''),
            (''block_number'', unnest_column ''BIGINT''),
            (''from_address'', unnest_column ''BYTEA''),
            (''to_address'', unnest_column ''BYTEA''),
            (''gas'', unnest_column ''NUMERIC''),
            (''gas_price'', unnest_column ''NUMERIC''),
            (''input'', unnest_column ''TEXT''),
            (''nonce'', unnest_column ''TEXT''),
            (''max_fee_per_gas'', unnest_column ''NUMERIC''),
            (''max_priority_fee_per_gas'', unnest_column ''NUMERIC''),
            (''transaction_index'', unnest_column ''BIGINT''),
            (''transaction_type'', unnest_column ''INTEGER''),
            (''value'', unnest_column ''NUMERIC''),
            (''indexed_at'', unnest_column ''TIMESTAMP WITH TIME ZONE'')];
         valuesMap0 =
           (if isBlockchainWithL1Chain
            then valuesMap(''l1_block_number'' \<mapsto> unnest_column ''BIGINT'')
            else valuesMap)
     in case WriteRawTransactions_rows isBlockchainWithL1Chain valuesMap0 rawTransactions of
          Inl err \<Rightarrow> (tx, Some err)
        | Inr valuesMap' \<Rightarrow>
            executeBatchInsert db tx tableName cols valuesMap' ''ON CONFLICT DO NOTHING'')"

section \<open>Block index writer (indexer/db.go)\<close>

definition writeBlockIndexToDB_columns :: "string \<Rightarrow> string list" where
  "writeBlockIndexToDB_columns blockchain =
    (let cols = [''block_number'', ''block_hash'', ''block_timestamp'', ''parent_hash'',
                 ''row_id'', ''path'', ''transactions_indexed_at'', ''logs_indexed_at'']
     in if IsBlockchainWithL1Chain blockchain then cols @ [''l1_block_number''] else cols)"

fun writeBlockIndexToDB_rows :: "bool \<Rightarrow> values_map \<Rightarrow> BlockIndex list \<Rightarrow> values_map" where
  "writeBlockIndexToDB_rows isBlockchainWithL1Chain valuesMap [] = valuesMap"
| "writeBlockIndexToDB_rows isBlockchainWithL1Chain valuesMap (index # rest) =
    (let valuesMap1 = updateAll valuesMap
           [(''block_number'', GoUint64 (bi_BlockNumber index)),
            (''block_hash'', GoString (bi_BlockHash index)),
            (''block_timestamp'', GoUint64 (bi_BlockTimestamp index)),
            (''parent_hash'', GoString (bi_ParentHash index)),
            (''row_id'', GoUint64 (bi_RowID index)),
            (''path'', GoString (bi_Path index)),
            (''transactions_indexed_at'', GoString ''now()''),
            (''logs_indexed_at'', GoString ''now()'')];
         valuesMap2 =
           (if isBlockchainWithL1Chain
            then updateValues valuesMap1 ''l1_block_number'' (bi_L1BlockNumber index)
            else valuesMap1)
     in writeBlockIndexToDB_rows isBlockchainWithL1Chain valuesMap2 rest)"

definition writeBlockIndexToDB ::
  "database \<Rightarrow> pg_tx \<Rightarrow> string \<Rightarrow> BlockIndex list \<Rightarrow> pg_tx \<times> error option"
where
  "writeBlockIndexToDB db tx blockchain indexes =
    (case BlocksTableName blockchain of
       Inl blocksTableErr \<Rightarrow> (tx, Some blocksTableErr)
     | Inr tableName \<Rightarrow>
        (let isBlockchainWithL1Chain = IsBlockchainWithL1Chain blockchain;
             cols = writeBlockIndexToDB_columns blockchain;
             valuesMap = map_of
               [(''block_number'', unnest_column ''BIGINT''),
                (''block_hash'', unnest_column ''TEXT''),
                (''block_timestamp'', unnest_column ''BIGINT''),
                (''parent_hash'', unnest_column ''TEXT''),
                (''row_id'', unnest_column ''BIGINT''),
                (''path'', unnest_column ''TEXT''),
                (''transactions_indexed_at'', unnest_column ''TIMESTAMP''),
                (''logs_indexed_at'', unnest_column ''TIMESTAMP'')];
             valuesMap0 =
               (if isBlockchainWithL1Chain
                then valuesMap(''l1_block_number'' \<mapsto> unnest_column ''BIGINT'')
                else valuesMap);
             valuesMap' = writeBlockIndexToDB_rows isBlockchainWithL1Chain valuesMap0 indexes
         in executeBatchInsert db tx tableName cols valuesMap'
              ''ON CONFLICT (block_number) DO NOTHING''))"

section \<open>Transactional writes (indexer/db.go)\<close>

text \<open>How a call ends: it returns its results (an error result is \<open>None\<close> for nil), or it
  panics.\<close>

datatype 'a outcome = Returned 'a | Panicked error

text \<open>
  \<open>WriteIndexes\<close> assigns the writer's error to the function's own \<open>err\<close>, which the
  deferred function reads: roll back when it is set, commit otherwise. The result is
  unnamed, so the error of the commit is not what the caller receives.
\<close>

definition WriteIndexes :: "database \<Rightarrow> string \<Rightarrow> BlockIndex list \<Rightarrow> database \<times> error option outcome" where
  "WriteIndexes db blockchain blocksIndexPack =
    (case acquire_err db of
       Some err \<Rightarrow> (db, Returned (Some err))
     | None \<Rightarrow>
    (case begin_err db of
       Some err \<Rightarrow>
         (db, Returned (Some (Wrapped ''failed to begin transaction: '' err)))
     | None \<Rightarrow>
    (let tx = tx_Begin;
         (tx1, err) = (if length blocksIndexPack > 0
                       then writeBlockIndexToDB db tx blockchain blocksIndexPack
                       else (tx, None))
     in case err of
          Some e \<Rightarrow> (tx_Rollback db tx1, Returned (Some e))
        | None \<Rightarrow> (fst (tx_Commit db tx1), Returned None))))"

text \<open>
  In \<open>WriteDataToCustomerDB\<close> each of the three blocks declares an \<open>err\<close> of its own
  (\<open>err := p.WriteTransactions(...)\<close>) and returns it. The deferred function reads the
  function's \<open>err\<close>, last assigned by \<open>conn.Begin\<close>: \<open>deferred_end\<close> takes that value
  as \<open>err\<close> and the value being returned as \<open>ret\<close>.
\<close>

definition deferred_end ::
  "database \<Rightarrow> pg_tx \<Rightarrow> error option \<Rightarrow> error option \<Rightarrow> database \<times> error option outcome"
where
  "deferred_end db tx err ret =
    (case err of
       Some e \<Rightarrow> (tx_Rollback db tx, Returned ret)
     | None \<Rightarrow>
        (case tx_Commit db tx of
           (db', Some commitErr) \<Rightarrow> (db', Panicked commitErr)
         | (db', None) \<Rightarrow> (db', Returned ret)))"

definition WriteDataToCustomerDB ::
  "database \<Rightarrow> (string \<Rightarrow> string) \<Rightarrow> (nat \<Rightarrow> string) \<Rightarrow> string \<Rightarrow>
   TransactionLabel list \<Rightarrow> EventLabel list \<Rightarrow> RawTransaction list \<Rightarrow> database \<times> error option outcome"
where
  "WriteDataToCustomerDB db verbs ids blockchain txCalls events rawTransactions =
    (case acquire_err db of
       Some err \<Rightarrow> (db, Returned (Some err))
     | None \<Rightarrow>
    (case begin_err db of
       Some err \<Rightarrow> (db, Returned (Some err))
     | None \<Rightarrow>
    (let tx = tx_Begin;
         err = None;
         (tx1, err1) = (if length txCalls > 0
                        then WriteTransactions db verbs ids tx blockchain txCalls
                        else (tx, None))
     in if err1 \<noteq> None then deferred_end db tx1 err err1
        else
          let (tx2, err2) =
                (if length events > 0
                 then WriteEvents db verbs (\<lambda>k. ids (length txCalls + k)) tx1 blockchain events
                 else (tx1, None))
          in if err2 \<noteq> None then deferred_end db tx2 err err2
             else
               let (tx3, err3) =
                     (if length rawTransactions > 0
                      then WriteRawTransactions db verbs tx2 blockchain rawTransactions
                      else (tx2, None))
               in if err3 \<noteq> None then deferred_end db tx3 err err3
                  else deferred_end db tx3 err err)))"

section \<open>Adaptive log scanner (evm/generators.go)\<close>

definition Contains :: "string \<Rightarrow> string \<Rightarrow> bool" where
  "Contains s substr = sublist substr s"

record FilterQuery =
  FromBlock :: int
  ToBlock :: int

text \<open>
  The loop of \<open>ClientFilterLogs\<close>. The provider is \<open>rpc\<close>: \<open>rpc n a b\<close> is the
  answer to the \<open>n\<close>-th \<open>eth_getLogs\<close> call of the scan, asking for the blocks from
  \<open>a\<close> to \<open>b\<close> with the addresses and topics of the query. \<open>Error\<close> is the method
  of that name of the error interface. Block numbers and the step are \<open>big.Int\<close>
  values; \<open>Div\<close> is Euclidean division, which for the divisor 2 is \<open>div\<close>. The loop is
  written \<open>for { ... }\<close>: the result \<open>None\<close> stands for a run that never leaves it.
\<close>

partial_function (option) ClientFilterLogs_loop ::
  "(error \<Rightarrow> string) \<Rightarrow> (nat \<Rightarrow> int \<Rightarrow> int \<Rightarrow> error + 'l list) \<Rightarrow> int \<Rightarrow>
   int \<Rightarrow> int \<Rightarrow> 'l list \<Rightarrow> nat \<Rightarrow> (error + 'l list) option"
where
  "ClientFilterLogs_loop Error rpc toBlock fromBlock batchStep logs n =
    (let nextBlock = (if fromBlock + batchStep > toBlock then toBlock
                      else fromBlock + batchStep)
     in case rpc n fromBlock nextBlock of
          Inl err \<Rightarrow>
            if Contains (Error err) ''query returned more than 10000 results'' then
              (let batchStep' = batchStep div 2 in
               if batchStep' < 1 then
                 (let fromBlock' = nextBlock + 1 in
                  if fromBlock' > toBlock then Some (Inr logs)
                  else ClientFilterLogs_loop Error rpc toBlock fromBlock' batchStep' logs (Suc n))
               else ClientFilterLogs_loop Error rpc toBlock fromBlock batchStep' logs (Suc n))
            else Some (Inl err)
        | Inr result \<Rightarrow>
            (let logs' = logs @ result; fromBlock' = nextBlock + 1 in
             if fromBlock' > toBlock then Some (Inr logs')
             else ClientFilterLogs_loop Error rpc toBlock fromBlock' batchStep logs' (Suc n)))"

definition ClientFilterLogs ::
  "(error \<Rightarrow> string) \<Rightarrow> (nat \<Rightarrow> int \<Rightarrow> int \<Rightarrow> error + 'l list) \<Rightarrow> FilterQuery \<Rightarrow>
   (error + 'l list) option"
where
  "ClientFilterLogs Error rpc q =
    (let fromBlock = FromBlock q;
         toBlock = ToBlock q;
         batchStep = toBlock - fromBlock
     in ClientFilterLogs_loop Error rpc toBlock fromBlock batchStep [] 0)"

text \<open>The marker test of the loop.\<close>

definition too_many_results :: "(error \<Rightarrow> string) \<Rightarrow> error \<Rightarrow> bool" where
  "too_many_results Error err = Contains (Error err) ''query returned more than 10000 results''"




text \<open>A provider that refuses every window of two blocks or more with the marker error
  and answers a window of one block with the number of that block.\<close>

definition single_block_provider :: "nat \<Rightarrow> int \<Rightarrow> int \<Rightarrow> error + int list" where
  "single_block_provider n a b =
     (if a < b then Inl (Errorf ''query returned more than 10000 results'') else Inr [a])"

text \<open>An \<open>Error\<close> method for the errors of that provider: the text of an error made
  by \<open>fmt.Errorf\<close> or sent by a server. The texts of the other errors are not needed
  and left empty.\<close>

fun error_text :: "error \<Rightarrow> string" where
  "error_text (Errorf s) = s"
| "error_text (PgError s) = s"
| "error_text _ = []"

section \<open>Bounded-parallel block fetcher (evm/generators.go)\<close>

text \<open>\<open>(*big.Int).String\<close>: the decimal digits, with a minus sign below zero.\<close>

definition String_int :: "int \<Rightarrow> string" where
  "String_int i = (if i < 0 then ''-'' @ itoa (nat (- i)) else itoa (nat i))"

text \<open>What the task of one block does: \<open>GetBlockByNumber\<close> returns a block or an error,
  or something in the task panics with a value printed as the given text.\<close>

datatype 'b fetched = Block 'b | GetErr error | Panic string

text \<open>What the goroutine of block \<open>b\<close> appends to the shared slice and what it sends on
  the error channel.\<close>

fun goroutine :: "int \<Rightarrow> 'b fetched \<Rightarrow> 'b option \<times> error option" where
  "goroutine b (Block block) = (Some block, None)"
| "goroutine b (GetErr getErr) = (None, Some getErr)"
| "goroutine b (Panic r) =
     (None, Some (Errorf (''panic in goroutine for block '' @ String_int b @ '': '' @ r)))"

text \<open>The goroutines settle in some order; the shared slice and the channel fill in that
  order.\<close>

fun settle :: "(int \<Rightarrow> 'b fetched) \<Rightarrow> int list \<Rightarrow> 'b list \<times> error list" where
  "settle task [] = ([], [])"
| "settle task (b # rest) =
     (case settle task rest of (blocks, errs) \<Rightarrow>
        (case goroutine b (task b) of
           (Some block, _) \<Rightarrow> (block # blocks, errs)
         | (None, Some err) \<Rightarrow> (blocks, err # errs)
         | (None, None) \<Rightarrow> (blocks, errs)))"

text \<open>
  \<open>schedule\<close> turns the list of block numbers into the order in which their goroutines
  settle. A semaphore of size 0 is an unbuffered channel on which no goroutine can ever
  send: with a block to fetch the call does not return (\<open>None\<close>); a negative size
  makes \<open>make\<close> panic. The aggregate error keeps the collected errors, which the code
  prints one after the other behind the prefix, separated by "; ".
\<close>

definition FetchBlocksInRangeAsync ::
  "(int \<Rightarrow> 'b fetched) \<Rightarrow> (int list \<Rightarrow> int list) \<Rightarrow> int \<Rightarrow> int \<Rightarrow> int \<Rightarrow>
   ('b list \<times> error option) outcome option"
where
  "FetchBlocksInRangeAsync task schedule from to maxRequests =
    (let blockNumbersRange = [from..to] in
     if maxRequests < 0 then Some (Panicked (Errorf ''makechan: size out of range''))
     else if maxRequests = 0 \<and> blockNumbersRange \<noteq> [] then None
     else
       case settle task (schedule blockNumbersRange) of (blocks, collectedErrors) \<Rightarrow>
         if length collectedErrors > 0
         then Some (Returned ([], Some (Joined ''errors occurred during crawling: '' ''; ''
                                          collectedErrors)))
         else Some (Returned (blocks, None)))"

text \<open>The failures of a range, in the order of a schedule.\<close>

definition failures :: "(int \<Rightarrow> 'b fetched) \<Rightarrow> int list \<Rightarrow> error list" where
  "failures task order = List.map_filter (\<lambda>b. snd (goroutine b (task b))) order"

definition fetched_blocks :: "(int \<Rightarrow> 'b fetched) \<Rightarrow> int list \<Rightarrow> 'b list" where
  "fetched_blocks task order = List.map_filter (\<lambda>b. fst (goroutine b (task b))) order"

definition is_Block :: "'b fetched \<Rightarrow> bool" where
  "is_Block f = (case f of Block _ \<Rightarrow> True | _ \<Rightarrow> False)"

text \<open>A provider that has every block but 157, and a schedule that settles the blocks
  from the highest to the lowest.\<close>

definition missing_157 :: "int \<Rightarrow> int fetched" where
  "missing_157 b = (if b = 157 then GetErr (Errorf ''block 157'') else Block b)"

section \<open>Decoder (evm/generators.go)\<close>



























section \<open>Vocabulary of the specification\<close>

text \<open>A hexadecimal string as the specification reads it: at least one character, each of
  them a digit or a letter from a to f in either case.\<close>

definition hex_digit :: "char \<Rightarrow> bool" where
  "hex_digit c =
    (let n = (of_char c :: nat) in
     (48 \<le> n \<and> n \<le> 57) \<or> (97 \<le> n \<and> n \<le> 102) \<or> (65 \<le> n \<and> n \<le> 70))"

definition valid_hexadecimal :: "string \<Rightarrow> bool" where
  "valid_hexadecimal s \<longleftrightarrow> s \<noteq> [] \<and> list_all hex_digit s"

text \<open>The same with one leading sign allowed.\<close>

definition signed_hexadecimal :: "string \<Rightarrow> bool" where
  "signed_hexadecimal s \<longleftrightarrow> valid_hexadecimal (snd (scanSign s))"

text \<open>The five fields of a raw transaction that \<open>WriteRawTransactions\<close> parses as
  numbers.\<close>

definition numeric_fields :: "RawTransaction \<Rightarrow> string list" where
  "numeric_fields r =
     [rt_Gas r, rt_GasPrice r, rt_MaxFeePerGas r, rt_MaxPriorityFeePerGas r, rt_Value r]"

text \<open>A database that can be reached and accepts every statement, with no rows yet.\<close>

definition accepting_db :: database where
  "accepting_db =
     \<lparr>acquire_err = None, begin_err = None, verdict = (\<lambda>stmt. None), committed = []\<rparr>"

text \<open>A raw transaction as the crawler produces it for a plain transfer; \<open>example_raw g\<close>
  carries \<open>g\<close> as its gas.\<close>

definition example_raw :: "string \<Rightarrow> RawTransaction" where
  "example_raw g =
     \<lparr>rt_Hash = ''0xaa'', rt_BlockHash = ''0xbb'', rt_BlockTimestamp = 1700000000,
      rt_BlockNumber = 100, rt_FromAddress = ''0x01'', rt_ToAddress = ''0x02'',
      rt_Gas = g, rt_GasPrice = ''0x3b9aca00'', rt_Input = ''0x'', rt_Nonce = ''0x1'',
      rt_MaxFeePerGas = [], rt_MaxPriorityFeePerGas = [], rt_TransactionIndex = 0,
      rt_TransactionType = 0, rt_Value = ''0xde0b6b3a7640000'', rt_L1BlockNumber = None\<rparr>"

text \<open>A transaction label as the decoder produces it.\<close>

definition example_label :: TransactionLabel where
  "example_label =
     \<lparr>tl_Address = ''0x02'', tl_BlockNumber = 100, tl_BlockHash = ''0xbb'',
      tl_CallerAddress = ''0x01'', tl_LabelName = ''transfer'', tl_LabelType = ''tx_call'',
      tl_OriginAddress = ''0x01'', tl_Label = ''seer'', tl_TransactionHash = ''0xaa'',
      tl_LabelData = ''{}'', tl_BlockTimestamp = 1700000000\<rparr>"

text \<open>A database that has no table for the raw transactions of any chain.\<close>

definition no_transactions_table_db :: database where
  "no_transactions_table_db =
     \<lparr>acquire_err = None, begin_err = None,
      verdict = (\<lambda>stmt. if suffix ''_transactions'' (table stmt)
                         then Some (PgError ''relation does not exist'') else None),
      committed = []\<rparr>"








section \<open>Table-name resolution\<close>

lemma BlocksTableName_known:
  "c \<in> set known_chains \<Longrightarrow> BlocksTableName c = Inr (c @ ''_blocks'')"
  unfolding known_chains_def BlocksTableName_def by auto

lemma BlocksTableName_unknown:
  "c \<notin> set known_chains \<Longrightarrow> BlocksTableName c = Inl (Errorf ''Unsupported blockchain'')"
  unfolding known_chains_def BlocksTableName_def by simp

lemma TransactionsTableName_known:
  "c \<in> set known_chains \<Longrightarrow> TransactionsTableName c = Inr (c @ ''_transactions'')"
  unfolding known_chains_def TransactionsTableName_def by auto

lemma TransactionsTableName_unknown:
  "c \<notin> set known_chains \<Longrightarrow>
     TransactionsTableName c = Inl (Errorf ''Unsupported blockchain'')"
  unfolding known_chains_def TransactionsTableName_def by simp

lemma LabelsTableName_plain:
  "CHR ''%'' \<notin> set c \<Longrightarrow> LabelsTableName verbs c = c @ ''_labels''"
  by (simp add: LabelsTableName_def Sprintf_def)

lemma BlocksTableName_inj:
  "BlocksTableName a = Inr t \<Longrightarrow> BlocksTableName b = Inr t \<Longrightarrow> a = b"
proof -
  assume a: "BlocksTableName a = Inr t" and b: "BlocksTableName b = Inr t"
  have "a \<in> set known_chains" using a BlocksTableName_unknown[of a] by auto
  moreover have "b \<in> set known_chains" using b BlocksTableName_unknown[of b] by auto
  ultimately have "a @ ''_blocks'' = b @ ''_blocks''"
    using a b BlocksTableName_known[of a] BlocksTableName_known[of b] by simp
  then show ?thesis by simp
qed

lemma TransactionsTableName_inj:
  "TransactionsTableName a = Inr t \<Longrightarrow> TransactionsTableName b = Inr t \<Longrightarrow> a = b"
proof -
  assume a: "TransactionsTableName a = Inr t" and b: "TransactionsTableName b = Inr t"
  have "a \<in> set known_chains" using a TransactionsTableName_unknown[of a] by auto
  moreover have "b \<in> set known_chains" using b TransactionsTableName_unknown[of b] by auto
  ultimately have "a @ ''_transactions'' = b @ ''_transactions''"
    using a b TransactionsTableName_known[of a] TransactionsTableName_known[of b] by simp
  then show ?thesis by simp
qed

text \<open>
  Claim C3, as the code has it. The blocks and transactions resolvers map a chain of the
  whitelist to \<open><chain>_blocks\<close> and \<open><chain>_transactions\<close>, are injective, and
  answer every other chain with the error "Unsupported blockchain". The labels resolver
  has no whitelist and no error result: it maps every chain name (free of \<open>%\<close>) to
  \<open><chain>_labels\<close>, injectively.
\<close>

theorem table_names_resolve:
  "(c \<in> set known_chains \<longrightarrow>
      BlocksTableName c = Inr (c @ ''_blocks'') \<and>
      TransactionsTableName c = Inr (c @ ''_transactions''))
   \<and> (c \<notin> set known_chains \<longrightarrow>
      BlocksTableName c = Inl (Errorf ''Unsupported blockchain'') \<and>
      TransactionsTableName c = Inl (Errorf ''Unsupported blockchain''))
   \<and> (BlocksTableName a = Inr t \<and> BlocksTableName b = Inr t \<longrightarrow> a = b)
   \<and> (TransactionsTableName a = Inr t \<and> TransactionsTableName b = Inr t \<longrightarrow> a = b)
   \<and> (CHR ''%'' \<notin> set c \<longrightarrow> LabelsTableName verbs c = c @ ''_labels'')
   \<and> (CHR ''%'' \<notin> set a \<and> CHR ''%'' \<notin> set b \<and>
        LabelsTableName verbs a = LabelsTableName verbs b \<longrightarrow> a = b)"
proof (intro conjI impI)
  assume "c \<in> set known_chains"
  then show "BlocksTableName c = Inr (c @ ''_blocks'')"
    and "TransactionsTableName c = Inr (c @ ''_transactions'')"
    by (rule BlocksTableName_known, rule TransactionsTableName_known)
next
  assume "c \<notin> set known_chains"
  then show "BlocksTableName c = Inl (Errorf ''Unsupported blockchain'')"
    and "TransactionsTableName c = Inl (Errorf ''Unsupported blockchain'')"
    by (rule BlocksTableName_unknown, rule TransactionsTableName_unknown)
next
  assume "BlocksTableName a = Inr t \<and> BlocksTableName b = Inr t"
  then show "a = b" using BlocksTableName_inj by blast
next
  assume "TransactionsTableName a = Inr t \<and> TransactionsTableName b = Inr t"
  then show "a = b" using TransactionsTableName_inj by blast
next
  assume "CHR ''%'' \<notin> set c"
  then show "LabelsTableName verbs c = c @ ''_labels''" by (rule LabelsTableName_plain)
next
  assume h: "CHR ''%'' \<notin> set a \<and> CHR ''%'' \<notin> set b \<and>
             LabelsTableName verbs a = LabelsTableName verbs b"
  from h have ha: "CHR ''%'' \<notin> set a" and hb: "CHR ''%'' \<notin> set b" by blast+
  from ha have 1: "LabelsTableName verbs a = a @ ''_labels''" by (rule LabelsTableName_plain)
  from hb have 2: "LabelsTableName verbs b = b @ ''_labels''" by (rule LabelsTableName_plain)
  from h have "LabelsTableName verbs a = LabelsTableName verbs b" by blast
  then show "a = b" unfolding 1 2 by simp
qed

theorem table_names_resolve_witness:
  "BlocksTableName ''ethereum'' = Inr ''ethereum_blocks''
   \<and> TransactionsTableName ''ethereum'' = Inr ''ethereum_transactions''
   \<and> LabelsTableName id ''ethereum'' = ''ethereum_labels''
   \<and> BlocksTableName ''dogecoin'' = Inl (Errorf ''Unsupported blockchain'')
   \<and> TransactionsTableName ''dogecoin'' = Inl (Errorf ''Unsupported blockchain'')"
  using table_names_resolve[of "''ethereum''" "''ethereum''" "''ethereum_blocks''"
          "''ethereum''" id]
    table_names_resolve[of "''dogecoin''" "''ethereum''" "''ethereum_blocks''"
          "''ethereum''" id]
  by (simp add: known_chains_def)

text \<open>
  Claim C3 as stated fails for the labels resolver: a chain outside the whitelist gets a
  table name, not an error.
\<close>

theorem labels_table_unknown_chain_counterexample:
  "''dogecoin'' \<notin> set known_chains \<and> LabelsTableName id ''dogecoin'' = ''dogecoin_labels''"
  by (simp add: known_chains_def LabelsTableName_def Sprintf_def)

section \<open>The L1 column\<close>

lemma IsBlockchainWithL1Chain_known:
  "\<forall>c\<in>set known_chains. IsBlockchainWithL1Chain c = l1_anchored_spec c"
  by (simp add: known_chains_def l1_anchored_spec_def IsBlockchainWithL1Chain_def)

lemma IsBlockchainWithL1Chain_spec: "IsBlockchainWithL1Chain c = l1_anchored_spec c"
proof (cases "c \<in> set known_chains")
  case True
  then show ?thesis using IsBlockchainWithL1Chain_known by blast
next
  case False
  then show ?thesis
    unfolding known_chains_def l1_anchored_spec_def IsBlockchainWithL1Chain_def by simp
qed

lemma executeBatchInsert_sent:
  "executeBatchInsert db tx t cols vm cc = (tx', None) \<Longrightarrow>
     \<exists>s. pending tx' = pending tx @ [s] \<and> table s = t \<and> columns s = cols"
  unfolding executeBatchInsert_def tx_Exec_def Let_def
  by (auto split: if_splits option.splits)

lemma writeBlockIndexToDB_columns_l1:
  "''l1_block_number'' \<in> set (writeBlockIndexToDB_columns c) \<longleftrightarrow> IsBlockchainWithL1Chain c"
  by (simp add: writeBlockIndexToDB_columns_def Let_def)

lemma WriteRawTransactions_columns_l1:
  "''l1_block_number'' \<in> set (WriteRawTransactions_columns c) \<longleftrightarrow> IsBlockchainWithL1Chain c"
  by (simp add: WriteRawTransactions_columns_def Let_def)

lemma writeBlockIndexToDB_sent:
  assumes "writeBlockIndexToDB db tx c idx = (tx', None)"
  shows "\<exists>s. pending tx' = pending tx @ [s] \<and> columns s = writeBlockIndexToDB_columns c"
proof (cases "BlocksTableName c")
  case (Inl e)
  with assms show ?thesis by (simp add: writeBlockIndexToDB_def)
next
  case (Inr t)
  with assms obtain vm where
    "executeBatchInsert db tx t (writeBlockIndexToDB_columns c) vm
       ''ON CONFLICT (block_number) DO NOTHING'' = (tx', None)"
    by (simp add: writeBlockIndexToDB_def Let_def)
  from executeBatchInsert_sent[OF this] show ?thesis by auto
qed

lemma WriteRawTransactions_sent:
  assumes "WriteRawTransactions db verbs tx c raws = (tx', None)"
  shows "\<exists>s. pending tx' = pending tx @ [s] \<and> columns s = WriteRawTransactions_columns c"
proof -
  from assms obtain t vm where
    "executeBatchInsert db tx t (WriteRawTransactions_columns c) vm
       ''ON CONFLICT DO NOTHING'' = (tx', None)"
    by (auto simp: WriteRawTransactions_def Let_def split: sum.splits)
  from executeBatchInsert_sent[OF this] show ?thesis by auto
qed

text \<open>
  Claim C7. \<open>IsBlockchainWithL1Chain\<close> holds exactly for the whitelist members named
  \<open>arbitrum_*\<close>, \<open>game7*\<close> or \<open>xai*\<close>; and the insert that the block-index writer and
  the raw-transaction writer send has the column \<open>l1_block_number\<close> if and only if the
  predicate holds for the chain.
\<close>

theorem l1_block_number_column:
  "IsBlockchainWithL1Chain c = l1_anchored_spec c
   \<and> (writeBlockIndexToDB db tx c idx = (tx', None) \<longrightarrow>
        (\<exists>s. pending tx' = pending tx @ [s] \<and>
             (''l1_block_number'' \<in> set (columns s) \<longleftrightarrow> IsBlockchainWithL1Chain c)))
   \<and> (WriteRawTransactions db verbs tx c raws = (tx'', None) \<longrightarrow>
        (\<exists>s. pending tx'' = pending tx @ [s] \<and>
             (''l1_block_number'' \<in> set (columns s) \<longleftrightarrow> IsBlockchainWithL1Chain c)))"
  using IsBlockchainWithL1Chain_spec[of c] writeBlockIndexToDB_sent[of db tx c idx tx']
    WriteRawTransactions_sent[of db verbs tx c raws tx'']
    writeBlockIndexToDB_columns_l1[of c] WriteRawTransactions_columns_l1[of c]
  by auto

lemma executeBatchInsert_accepting:
  "snd (executeBatchInsert accepting_db tx_Begin t cols vm cc) = None"
  by (simp add: executeBatchInsert_def tx_Exec_def accepting_db_def tx_Begin_def Let_def)

theorem l1_block_number_column_witness:
  "IsBlockchainWithL1Chain ''xai''
   \<and> (\<exists>s. pending (fst (writeBlockIndexToDB accepting_db tx_Begin ''xai'' [])) = [s] \<and>
          ''l1_block_number'' \<in> set (columns s))
   \<and> \<not> IsBlockchainWithL1Chain ''ethereum''
   \<and> (\<exists>s. pending (fst (WriteRawTransactions accepting_db id tx_Begin ''ethereum'' [])) = [s] \<and>
          ''l1_block_number'' \<notin> set (columns s))"
proof -
  have b: "writeBlockIndexToDB accepting_db tx_Begin ''xai'' [] =
             (fst (writeBlockIndexToDB accepting_db tx_Begin ''xai'' []), None)"
    using executeBatchInsert_accepting
    by (simp add: writeBlockIndexToDB_def BlocksTableName_def Let_def prod_eq_iff)
  have r: "WriteRawTransactions accepting_db id tx_Begin ''ethereum'' [] =
             (fst (WriteRawTransactions accepting_db id tx_Begin ''ethereum'' []), None)"
    using executeBatchInsert_accepting
    by (simp add: WriteRawTransactions_def Let_def prod_eq_iff)
  have x: "l1_anchored_spec ''xai''" and e: "\<not> l1_anchored_spec ''ethereum''"
    by (simp_all add: l1_anchored_spec_def known_chains_def)
  note X = l1_block_number_column[of "''xai''" accepting_db tx_Begin "[]"
         "fst (writeBlockIndexToDB accepting_db tx_Begin ''xai'' [])" id "[]" tx_Begin]
  from X x have 1: "IsBlockchainWithL1Chain ''xai''" by blast
  from X b obtain s where
    "pending (fst (writeBlockIndexToDB accepting_db tx_Begin ''xai'' [])) = pending tx_Begin @ [s]"
    "''l1_block_number'' \<in> set (columns s) \<longleftrightarrow> IsBlockchainWithL1Chain ''xai''"
    by blast
  with 1 have 2: "\<exists>s. pending (fst (writeBlockIndexToDB accepting_db tx_Begin ''xai'' [])) = [s]
          \<and> ''l1_block_number'' \<in> set (columns s)"
    by (auto simp: tx_Begin_def)
  note E = l1_block_number_column[of "''ethereum''" accepting_db tx_Begin "[]" tx_Begin id "[]"
         "fst (WriteRawTransactions accepting_db id tx_Begin ''ethereum'' [])"]
  from E e have 3: "\<not> IsBlockchainWithL1Chain ''ethereum''" by blast
  from E r obtain s' where
    "pending (fst (WriteRawTransactions accepting_db id tx_Begin ''ethereum'' []))
       = pending tx_Begin @ [s']"
    "''l1_block_number'' \<in> set (columns s') \<longleftrightarrow> IsBlockchainWithL1Chain ''ethereum''"
    by blast
  with 3 have 4: "\<exists>s. pending (fst (WriteRawTransactions accepting_db id tx_Begin ''ethereum'' []))
          = [s] \<and> ''l1_block_number'' \<notin> set (columns s)"
    by (auto simp: tx_Begin_def)
  from 1 2 3 4 show ?thesis by blast
qed

section \<open>NULL values\<close>

text \<open>
  Claim C8. \<open>determineValue\<close> gives nil (SQL NULL) for the untyped nil and for a nil
  pointer of any type, and returns every other value as it is; \<open>updateValues\<close>
  appends the value so normalised to the column of the key.
\<close>

theorem determineValue_null:
  "determineValue NilInterface = NilInterface
   \<and> determineValue (GoPtr ty None) = NilInterface
   \<and> (val \<noteq> NilInterface \<and> (\<forall>ty'. val \<noteq> GoPtr ty' None) \<longrightarrow> determineValue val = val)
   \<and> (valuesMap key = Some entry \<longrightarrow>
        updateValues valuesMap key val =
          valuesMap(key \<mapsto> entry\<lparr>Values := Values entry @ [determineValue val]\<rparr>))"
proof -
  have "val \<noteq> NilInterface \<Longrightarrow> (\<forall>ty'. val \<noteq> GoPtr ty' None) \<Longrightarrow> determineValue val = val"
    by (cases val) (auto simp: determineValue_def elim: IsNil.elims)
  then show ?thesis
    by (simp add: determineValue_def updateValues_def)
qed

theorem determineValue_null_witness:
  "determineValue (GoPtr ''uint64'' (Some (GoUint64 7))) = GoPtr ''uint64'' (Some (GoUint64 7))
   \<and> determineValue (GoBytes None) = GoBytes None
   \<and> updateValues [''gas'' \<mapsto> unnest_column ''NUMERIC''] ''gas'' (GoPtr ''big.Int'' None) ''gas''
       = Some \<lparr>Type = ''NUMERIC'', Values = [NilInterface]\<rparr>"
  using determineValue_null[of "''big.Int''" "GoPtr ''uint64'' (Some (GoUint64 7))"
          "[''gas'' \<mapsto> unnest_column ''NUMERIC'']" "''gas''" "unnest_column ''NUMERIC''"]
    determineValue_null[of "''big.Int''" "GoBytes None"
          "[''gas'' \<mapsto> unnest_column ''NUMERIC'']" "''gas''" "unnest_column ''NUMERIC''"]
    determineValue_null[of "''big.Int''" "GoPtr ''big.Int'' None"
          "[''gas'' \<mapsto> unnest_column ''NUMERIC'']" "''gas''" "unnest_column ''NUMERIC''"]
  by (simp add: unnest_column_def)

section \<open>Addresses and numbers of a raw transaction\<close>

text \<open>
  Claim C9. An address shorter than two characters decodes to the single byte 0 with no
  error. A longer one is hex-decoded from its third character on, whatever its first two
  characters are: they are dropped unread, so any two of them give the result of
  \<open>0x\<close>.
\<close>

theorem decodeAddress_prefix:
  "(length address < 2 \<longrightarrow> decodeAddress address = ([0x00], None))
   \<and> (2 \<le> length address \<longrightarrow> decodeAddress address = hex_DecodeString (drop 2 address))
   \<and> decodeAddress (c1 # c2 # rest) = decodeAddress (''0x'' @ rest)"
  by (simp add: decodeAddress_def)

theorem decodeAddress_prefix_witness:
  "decodeAddress [] = ([0x00], None)
   \<and> decodeAddress ''f'' = ([0x00], None)
   \<and> decodeAddress ''zzff01'' = hex_DecodeString ''ff01''
   \<and> decodeAddress ''zzff01'' = decodeAddress ''0xff01''"
  using decodeAddress_prefix[of "[]" "CHR ''z''" "CHR ''z''" "''ff01''"]
    decodeAddress_prefix[of "''f''" "CHR ''z''" "CHR ''z''" "''ff01''"]
    decodeAddress_prefix[of "''zzff01''" "CHR ''z''" "CHR ''z''" "''ff01''"]
    decodeAddress_prefix[of "''0xff01''" "CHR ''z''" "CHR ''z''" "''ff01''"]
  by simp

lemma digitVal_hex: "digitVal c < 16 \<longleftrightarrow> hex_digit c"
  unfolding digitVal_def hex_digit_def Let_def by auto

lemma scanDigits_all:
  "list_all (\<lambda>c. digitVal c < b) r \<Longrightarrow> snd (scanDigits b z n r) = (n + length r, [])"
  by (induction r arbitrary: z n) auto

lemma scanDigits_bad:
  "\<not> list_all (\<lambda>c. digitVal c < b) r \<Longrightarrow> snd (snd (scanDigits b z n r)) \<noteq> []"
  by (induction r arbitrary: z n) auto

lemma SetString_None: "SetString s 16 = None \<longleftrightarrow> \<not> signed_hexadecimal s"
proof (cases "scanSign s")
  case (Pair neg r)
  show ?thesis
  proof (cases "list_all hex_digit r")
    case True
    then have "list_all (\<lambda>c. digitVal c < 16) r" by (simp add: digitVal_hex)
    from scanDigits_all[OF this, of 0 0] have "snd (scanDigits 16 0 0 r) = (length r, [])"
      by simp
    with Pair True show ?thesis
      by (auto simp: SetString_def signed_hexadecimal_def valid_hexadecimal_def
               split: prod.splits)
  next
    case False
    then have "\<not> list_all (\<lambda>c. digitVal c < 16) r" by (simp add: digitVal_hex)
    from scanDigits_bad[OF this, of 0 0] have "snd (snd (scanDigits 16 0 0 r)) \<noteq> []" .
    with Pair False show ?thesis
      by (auto simp: SetString_def signed_hexadecimal_def valid_hexadecimal_def
               split: prod.splits)
  qed
qed

lemma hexStringToBigInt_error:
  "s \<noteq> [] \<Longrightarrow> isl (hexStringToBigInt s) \<longleftrightarrow> \<not> signed_hexadecimal (TrimPrefix s ''0x'')"
  using SetString_None[of "TrimPrefix s ''0x''"]
  by (auto simp: hexStringToBigInt_def Let_def split: option.splits)

lemma WriteRawTransactions_rows_abort:
  "\<exists>r\<in>set rs. \<exists>f\<in>set (numeric_fields r). isl (hexStringToBigInt f) \<Longrightarrow>
     isl (WriteRawTransactions_rows l1 vm rs)"
proof (induction rs arbitrary: vm)
  case Nil
  then show ?case by simp
next
  case (Cons r rs)
  show ?case
  proof (cases "\<exists>f\<in>set (numeric_fields r). isl (hexStringToBigInt f)")
    case True
    then show ?thesis
      by (auto simp: numeric_fields_def Let_def split: prod.splits option.splits sum.splits)
  next
    case False
    with Cons.prems have "\<exists>r\<in>set rs. \<exists>f\<in>set (numeric_fields r). isl (hexStringToBigInt f)"
      by auto
    from Cons.IH[OF this] show ?thesis
      by (auto simp: Let_def split: prod.splits option.splits sum.splits)
  qed
qed

lemma WriteRawTransactions_abort:
  assumes "\<exists>r\<in>set rs. \<exists>f\<in>set (numeric_fields r). isl (hexStringToBigInt f)"
  shows "\<exists>err. WriteRawTransactions db verbs tx c rs = (tx, Some err)"
proof -
  have "WriteRawTransactions_rows l1 vm rs \<noteq> Inr x" for l1 vm x
    using WriteRawTransactions_rows_abort[OF assms, of l1 vm] by auto
  then show ?thesis
    unfolding WriteRawTransactions_def Let_def
    by (auto split: sum.splits)
qed

text \<open>
  Claim C10, as the code has it. The empty string gives the nil number with no error,
  which the value builder turns into SQL NULL. Every other string gives an error exactly
  when what is left after an optional \<open>0x\<close> is not a hexadecimal string with an
  optional sign before it; \<open>0x\<close> alone is such a string. A raw transaction with a
  numeric field in error makes \<open>WriteRawTransactions\<close> return an error with nothing
  sent to the database.
\<close>

theorem hexStringToBigInt_null_or_error:
  "hexStringToBigInt [] = Inr None
   \<and> determineValue (bigIntPtr None) = NilInterface
   \<and> isl (hexStringToBigInt ''0x'')
   \<and> (s \<noteq> [] \<longrightarrow>
        (isl (hexStringToBigInt s) \<longleftrightarrow> \<not> signed_hexadecimal (TrimPrefix s ''0x'')))
   \<and> ((\<exists>r\<in>set rs. \<exists>f\<in>set (numeric_fields r). isl (hexStringToBigInt f)) \<longrightarrow>
        (\<exists>err. WriteRawTransactions db verbs tx c rs = (tx, Some err)))"
proof -
  have "hexStringToBigInt [] = Inr None"
    by (simp add: hexStringToBigInt_def)
  moreover have "determineValue (bigIntPtr None) = NilInterface"
    by (simp add: determineValue_def bigIntPtr_def)
  moreover have "isl (hexStringToBigInt ''0x'')"
    by (simp add: hexStringToBigInt_error TrimPrefix_def signed_hexadecimal_def
          valid_hexadecimal_def)
  ultimately show ?thesis
    using hexStringToBigInt_error[of s] WriteRawTransactions_abort[of rs db verbs tx c]
    by blast
qed

theorem hexStringToBigInt_null_or_error_witness:
  "isl (hexStringToBigInt ''0xzz'')
   \<and> \<not> isl (hexStringToBigInt ''0x1f'')
   \<and> (\<exists>err. WriteRawTransactions accepting_db id tx_Begin ''ethereum''
               [example_raw ''0x5208'', example_raw ''0xzz''] = (tx_Begin, Some err))"
proof -
  have a: "isl (hexStringToBigInt ''0xzz'')"
    using hexStringToBigInt_null_or_error[of "''0xzz''" "[]" accepting_db id tx_Begin "[]"]
    by (simp add: TrimPrefix_def signed_hexadecimal_def valid_hexadecimal_def hex_digit_def)
  have b: "\<not> isl (hexStringToBigInt ''0x1f'')"
    using hexStringToBigInt_null_or_error[of "''0x1f''" "[]" accepting_db id tx_Begin "[]"]
    by (simp add: TrimPrefix_def signed_hexadecimal_def valid_hexadecimal_def hex_digit_def)
  have "\<exists>r\<in>set [example_raw ''0x5208'', example_raw ''0xzz''].
          \<exists>f\<in>set (numeric_fields r). isl (hexStringToBigInt f)"
    using a by (simp add: numeric_fields_def example_raw_def)
  with hexStringToBigInt_null_or_error[of "''0xzz''"
         "[example_raw ''0x5208'', example_raw ''0xzz'']" accepting_db id tx_Begin
         "''ethereum''"]
  have "\<exists>err. WriteRawTransactions accepting_db id tx_Begin ''ethereum''
               [example_raw ''0x5208'', example_raw ''0xzz''] = (tx_Begin, Some err)"
    by blast
  with a b show ?thesis by blast
qed

text \<open>
  Claim C10 as stated fails on a signed string: \<open>-ff\<close> is not a hexadecimal string, and
  it gives the number -255 and no error.
\<close>

theorem hexStringToBigInt_signed_counterexample:
  "\<not> valid_hexadecimal (TrimPrefix ''-ff'' ''0x'')
   \<and> hexStringToBigInt ''-ff'' = Inr (Some (- 255))"
  by (simp add: valid_hexadecimal_def hex_digit_def TrimPrefix_def hexStringToBigInt_def
        SetString_def digitVal_def)

section \<open>The transaction around the label writes\<close>

lemma executeBatchInsert_accepted:
  assumes "verdict db = (\<lambda>s. None)" and "\<not> aborted tx"
  shows "snd (executeBatchInsert db tx t cols vm cc) = None"
    and "\<not> aborted (fst (executeBatchInsert db tx t cols vm cc))"
    and "map table (pending (fst (executeBatchInsert db tx t cols vm cc)))
           = map table (pending tx) @ [t]"
  using assms by (simp_all add: executeBatchInsert_def tx_Exec_def Let_def)

lemma executeBatchInsert_rejected:
  assumes "\<And>s. table s = t \<Longrightarrow> verdict db s = Some e" and "\<not> aborted tx"
  shows "snd (executeBatchInsert db tx t cols vm cc)
           = Some (Wrapped ''error executing bulk insert for batch: '' e)"
    and "aborted (fst (executeBatchInsert db tx t cols vm cc))"
  using assms by (simp_all add: executeBatchInsert_def tx_Exec_def Let_def)

lemma WriteTransactions_accepted:
  assumes "verdict db = (\<lambda>s. None)" and "\<not> aborted tx"
  shows "snd (WriteTransactions db verbs ids tx c ls) = None"
    and "\<not> aborted (fst (WriteTransactions db verbs ids tx c ls))"
    and "map table (pending (fst (WriteTransactions db verbs ids tx c ls)))
           = map table (pending tx) @ [LabelsTableName verbs c]"
  using executeBatchInsert_accepted[OF assms]
  by (simp_all add: WriteTransactions_def Let_def)

lemma WriteRawTransactions_bad_gas:
  "WriteRawTransactions db verbs tx c [example_raw ''0xzz'']
     = (tx, Some (Errorf ''failed to parse hex string: zz''))"
  by (simp add: WriteRawTransactions_def Let_def example_raw_def decodeAddress_def
        hex_DecodeString_def reverseHexTable_def hexStringToBigInt_def TrimPrefix_def
        SetString_def digitVal_def)

text \<open>
  Claim C1 on the code. The call below writes one transaction label and one raw
  transaction whose gas is not a number. The label insert succeeds, the raw-transaction
  write fails before it reaches the database, and the function returns that error; but
  the deferred function sees the function's own \<open>err\<close>, still nil, and commits: the
  label row of the failed call is visible afterwards.
\<close>

theorem WriteDataToCustomerDB_commits_on_error:
  "snd (WriteDataToCustomerDB accepting_db id (\<lambda>k. ''id'') ''ethereum''
          [example_label] [] [example_raw ''0xzz''])
     = Returned (Some (Errorf ''failed to parse hex string: zz''))
   \<and> map table (committed (fst (WriteDataToCustomerDB accepting_db id (\<lambda>k. ''id'') ''ethereum''
          [example_label] [] [example_raw ''0xzz''])))
     = [''ethereum_labels'']"
proof -
  have v: "verdict accepting_db = (\<lambda>s. None)" by (simp add: accepting_db_def)
  have a: "\<not> aborted tx_Begin" by (simp add: tx_Begin_def)
  note W = WriteTransactions_accepted[OF v a, of id "\<lambda>k. ''id''" "''ethereum''" "[example_label]"]
  have acq: "acquire_err accepting_db = None" "begin_err accepting_db = None"
    "committed accepting_db = []"
    by (simp_all add: accepting_db_def)
  have p: "pending tx_Begin = []" by (simp add: tx_Begin_def)
  show ?thesis
    using W
    by (simp add: WriteDataToCustomerDB_def acq p WriteRawTransactions_bad_gas deferred_end_def
          tx_Commit_def case_prod_beta Let_def LabelsTableName_def Sprintf_def)
qed

text \<open>
  When it is the database that refuses a statement, the transaction is aborted, the
  commit is answered by a rollback, and the function panics with the commit's error
  instead of returning the error of the write.
\<close>

lemma WriteDataToCustomerDB_panics_on_refusal:
  "WriteDataToCustomerDB no_transactions_table_db id ids ''ethereum'' [] [] [example_raw ''0x5208'']
     = (no_transactions_table_db, Panicked ErrTxCommitRollback)"
proof -
  have "\<not> isl (WriteRawTransactions_rows False vm [example_raw ''0x5208''])" for vm
    by (simp add: Let_def example_raw_def decodeAddress_def hex_DecodeString_def
          reverseHexTable_def hexStringToBigInt_def TrimPrefix_def SetString_def digitVal_def)
  then have rows: "WriteRawTransactions_rows False vm [example_raw ''0x5208''] \<noteq> Inl x"
    for vm x by (metis sum.disc(1))
  have l1: "\<not> IsBlockchainWithL1Chain ''ethereum''"
    by (simp add: IsBlockchainWithL1Chain_def)
  have a: "\<not> aborted tx_Begin" by (simp add: tx_Begin_def)
  have r: "table s = CustomerDBTransactionsTableName id ''ethereum'' \<Longrightarrow>
             verdict no_transactions_table_db s = Some (PgError ''relation does not exist'')" for s
    by (simp add: no_transactions_table_db_def CustomerDBTransactionsTableName_def Sprintf_def
          suffix_def)
  note E = executeBatchInsert_rejected[of "CustomerDBTransactionsTableName id ''ethereum''"
             no_transactions_table_db _ tx_Begin, OF r a]
  have w: "snd (WriteRawTransactions no_transactions_table_db id tx_Begin ''ethereum''
                  [example_raw ''0x5208''])
             = Some (Wrapped ''error executing bulk insert for batch: ''
                       (PgError ''relation does not exist''))"
      "aborted (fst (WriteRawTransactions no_transactions_table_db id tx_Begin ''ethereum''
                  [example_raw ''0x5208'']))"
    using rows l1 E
    by (auto simp: WriteRawTransactions_def Let_def simp del: WriteRawTransactions_rows.simps
          split: sum.splits)
  have acq: "acquire_err no_transactions_table_db = None"
    "begin_err no_transactions_table_db = None"
    by (simp_all add: no_transactions_table_db_def)
  show ?thesis
    using w
    by (simp add: WriteDataToCustomerDB_def acq deferred_end_def tx_Commit_def
          case_prod_beta Let_def)
qed

text \<open>The sibling \<open>WriteIndexes\<close> does roll back: whenever it returns an error, the
  database is as it was.\<close>

lemma WriteIndexes_rolls_back:
  "snd (WriteIndexes db c idx) = Returned (Some e) \<Longrightarrow>
     committed (fst (WriteIndexes db c idx)) = committed db"
  by (auto simp: WriteIndexes_def tx_Rollback_def Let_def split: option.splits prod.splits)

section \<open>Termination of the log scanner\<close>










text \<open>
  The scan of the witness, step by step: the windows 0 to 3 and 0 to 1 are refused, the
  step is then below one and the scan resumes at block 2; the logs of the blocks 2 and 3
  are returned.
\<close>

lemma marker_error:
  "too_many_results error_text (Errorf ''query returned more than 10000 results'')"
  by (simp add: too_many_results_def Contains_def)

lemma ClientFilterLogs_single_block_provider:
  "ClientFilterLogs error_text single_block_provider \<lparr>FromBlock = 0, ToBlock = 3\<rparr>
     = Some (Inr [2, 3])"
proof -
  have m: "Contains ''query returned more than 10000 results''
             ''query returned more than 10000 results''"
    by (simp add: Contains_def)
  have 1: "ClientFilterLogs_loop error_text single_block_provider 3 0 3 [] 0
         = ClientFilterLogs_loop error_text single_block_provider 3 0 1 [] (Suc 0)"
    by (subst ClientFilterLogs_loop.simps) (simp add: single_block_provider_def m)
  have 2: "ClientFilterLogs_loop error_text single_block_provider 3 0 1 [] (Suc 0)
         = ClientFilterLogs_loop error_text single_block_provider 3 2 0 [] (Suc (Suc 0))"
    by (subst ClientFilterLogs_loop.simps) (simp add: single_block_provider_def m)
  have 3: "ClientFilterLogs_loop error_text single_block_provider 3 2 0 [] (Suc (Suc 0))
         = ClientFilterLogs_loop error_text single_block_provider 3 3 0 [2] (Suc (Suc (Suc 0)))"
    by (subst ClientFilterLogs_loop.simps) (simp add: single_block_provider_def)
  have 4: "ClientFilterLogs_loop error_text single_block_provider 3 3 0 [2] (Suc (Suc (Suc 0)))
         = Some (Inr [2, 3])"
    by (subst ClientFilterLogs_loop.simps) (simp add: single_block_provider_def)
  show ?thesis
    by (simp add: ClientFilterLogs_def 1 2 3 4)
qed

section \<open>The bounded-parallel fetcher\<close>

lemma settle_eq: "settle task order = (fetched_blocks task order, failures task order)"
proof (induction order)
  case Nil
  then show ?case by (simp add: fetched_blocks_def failures_def)
next
  case (Cons b rest)
  then show ?case
    by (cases "task b") (simp_all add: fetched_blocks_def failures_def)
qed

lemma failures_set:
  "set (failures task order) = {e. \<exists>b\<in>set order. snd (goroutine b (task b)) = Some e}"
  by (induction order) (auto simp: failures_def map_filter_simps split: option.splits)

lemma failed_iff: "snd (goroutine b f) \<noteq> None \<longleftrightarrow> \<not> is_Block f"
  by (cases f) (simp_all add: is_Block_def)

lemma failures_length:
  "distinct order \<Longrightarrow>
     length (failures task order) = card {b \<in> set order. \<not> is_Block (task b)}"
proof -
  assume d: "distinct order"
  have "length (failures task order) = length (filter (\<lambda>b. \<not> is_Block (task b)) order)"
    by (induction order)
       (auto simp: failures_def is_Block_def split: fetched.splits option.splits)
  also have "\<dots> = card (set (filter (\<lambda>b. \<not> is_Block (task b)) order))"
    by (rule distinct_card[symmetric], rule distinct_filter, rule d)
  finally show ?thesis by simp
qed

lemma fetched_blocks_all:
  "\<forall>b\<in>set order. is_Block (task b) \<Longrightarrow>
     failures task order = [] \<and>
     length (fetched_blocks task order) = length order \<and>
     set (fetched_blocks task order) = {block. \<exists>b\<in>set order. task b = Block block}"
proof (induction order)
  case Nil
  then show ?case by (simp add: fetched_blocks_def failures_def)
next
  case (Cons b rest)
  then obtain block where "task b = Block block"
    by (cases "task b") (auto simp: is_Block_def)
  with Cons show ?case
    by (auto simp: fetched_blocks_def failures_def)
qed

text \<open>
  Claim C6. With a semaphore of at least one slot and the tasks of the range settling in
  any order: if a task returns an error or panics, the call returns no block and an
  aggregate error that lists the failure of every failed task, once each; if no task
  fails, it returns the blocks of all tasks of the range.
\<close>

theorem FetchBlocksInRangeAsync_all_or_nothing:
  assumes "0 < maxRequests"
    and "distinct (schedule [from..to])"
    and "set (schedule [from..to]) = {from..to}"
  shows "((\<exists>b\<in>{from..to}. \<not> is_Block (task b)) \<longrightarrow>
           (\<exists>errs. FetchBlocksInRangeAsync task schedule from to maxRequests =
                     Some (Returned ([], Some (Joined ''errors occurred during crawling: ''
                                                ''; '' errs))) \<and>
                   set errs = {e. \<exists>b\<in>{from..to}. snd (goroutine b (task b)) = Some e} \<and>
                   length errs = card {b \<in> {from..to}. \<not> is_Block (task b)}))
       \<and> ((\<forall>b\<in>{from..to}. is_Block (task b)) \<longrightarrow>
           (\<exists>blocks. FetchBlocksInRangeAsync task schedule from to maxRequests =
                       Some (Returned (blocks, None)) \<and>
                     length blocks = length [from..to] \<and>
                     set blocks = {block. \<exists>b\<in>{from..to}. task b = Block block}))"
proof (intro conjI impI)
  let ?order = "schedule [from..to]"
  assume "\<exists>b\<in>{from..to}. \<not> is_Block (task b)"
  then have "{b \<in> set ?order. \<not> is_Block (task b)} \<noteq> {}"
    using assms(3) by auto
  moreover have "finite {b \<in> set ?order. \<not> is_Block (task b)}" by simp
  ultimately have "0 < card {b \<in> set ?order. \<not> is_Block (task b)}"
    by (simp add: card_gt_0_iff)
  then have pos: "0 < length (failures task ?order)"
    using failures_length[OF assms(2), of task] by simp
  have "FetchBlocksInRangeAsync task schedule from to maxRequests =
          Some (Returned ([], Some (Joined ''errors occurred during crawling: '' ''; ''
                                     (failures task ?order))))"
    using assms(1) pos by (simp add: FetchBlocksInRangeAsync_def settle_eq Let_def)
  moreover have "set (failures task ?order)
                   = {e. \<exists>b\<in>{from..to}. snd (goroutine b (task b)) = Some e}"
    using failures_set[of task ?order] assms(3) by simp
  moreover have "length (failures task ?order) = card {b \<in> {from..to}. \<not> is_Block (task b)}"
    using failures_length[OF assms(2), of task] assms(3) by simp
  ultimately show "\<exists>errs. FetchBlocksInRangeAsync task schedule from to maxRequests =
                     Some (Returned ([], Some (Joined ''errors occurred during crawling: ''
                                                ''; '' errs))) \<and>
                   set errs = {e. \<exists>b\<in>{from..to}. snd (goroutine b (task b)) = Some e} \<and>
                   length errs = card {b \<in> {from..to}. \<not> is_Block (task b)}"
    by blast
next
  let ?order = "schedule [from..to]"
  assume "\<forall>b\<in>{from..to}. is_Block (task b)"
  then have "\<forall>b\<in>set ?order. is_Block (task b)" using assms(3) by simp
  from fetched_blocks_all[OF this]
  have f: "failures task ?order = []"
    and l: "length (fetched_blocks task ?order) = length ?order"
    and s: "set (fetched_blocks task ?order) = {block. \<exists>b\<in>set ?order. task b = Block block}"
    by blast+
  have "length ?order = length [from..to]"
    using assms(2,3) distinct_card[of ?order] distinct_card[of "[from..to]"] by simp
  with l have l': "length (fetched_blocks task ?order) = length [from..to]" by simp
  have "FetchBlocksInRangeAsync task schedule from to maxRequests =
          Some (Returned (fetched_blocks task ?order, None))"
    using assms(1) f by (simp add: FetchBlocksInRangeAsync_def settle_eq Let_def)
  with l' s assms(3)
  show "\<exists>blocks. FetchBlocksInRangeAsync task schedule from to maxRequests =
                       Some (Returned (blocks, None)) \<and>
                     length blocks = length [from..to] \<and>
                     set blocks = {block. \<exists>b\<in>{from..to}. task b = Block block}"
    by auto
qed

theorem FetchBlocksInRangeAsync_all_or_nothing_witness:
  "(\<exists>errs. FetchBlocksInRangeAsync missing_157 rev 100 200 8 =
             Some (Returned ([], Some (Joined ''errors occurred during crawling: '' ''; ''
                                        errs))) \<and>
           length errs = card {b \<in> {100..200}. \<not> is_Block (missing_157 b)})
   \<and> (\<exists>blocks. FetchBlocksInRangeAsync missing_157 rev 100 156 8 =
               Some (Returned (blocks, None)) \<and> length blocks = length [100..156::int])"
proof -
  have d: "distinct (rev [i..j])" and s: "set (rev [i..j]) = {i..j}" for i j :: int
    by simp_all
  have p: "(0::int) < 8" by simp
  have "\<not> is_Block (missing_157 157)" by (simp add: missing_157_def is_Block_def)
  then have a: "\<exists>b\<in>{100..200}. \<not> is_Block (missing_157 b)" by auto
  have b: "\<forall>b\<in>{100..156}. is_Block (missing_157 b)" by (simp add: missing_157_def is_Block_def)
  from FetchBlocksInRangeAsync_all_or_nothing[of 8 rev 100 200 missing_157, OF p d s] a
  have 1: "\<exists>errs. FetchBlocksInRangeAsync missing_157 rev 100 200 8 =
             Some (Returned ([], Some (Joined ''errors occurred during crawling: '' ''; ''
                                        errs))) \<and>
           length errs = card {b \<in> {100..200}. \<not> is_Block (missing_157 b)}"
    by blast
  from FetchBlocksInRangeAsync_all_or_nothing[of 8 rev 100 156 missing_157, OF p d s] b
  have 2: "\<exists>blocks. FetchBlocksInRangeAsync missing_157 rev 100 156 8 =
               Some (Returned (blocks, None)) \<and> length blocks = length [100..156::int]"
    by blast
  from 1 2 show ?thesis by blast
qed

text \<open>The fifth scenario of the specification, on the three blocks around 157: the result
  has no block and the error of block 157.\<close>

lemma FetchBlocksInRangeAsync_missing_157:
  "FetchBlocksInRangeAsync missing_157 rev 156 158 8 =
     Some (Returned ([], Some (Joined ''errors occurred during crawling: '' ''; ''
                                 [Errorf ''block 157''])))"
  by (simp add: FetchBlocksInRangeAsync_def Let_def missing_157_def upto.simps)

section \<open>The decoder\<close>






















end
